theory Spec2Isabelle
  imports Main
begin

section \<open>Sandbox responses and their diagnosis\<close>

text \<open>
  The response of the sandbox web service, as \<open>executeCode\<close> reads it after
  \<open>JSON.parse\<close>: two integer codes and three strings.
\<close>

record response =
  error :: int
  result :: int
  cmpinfo :: string
  "output" :: string
  stderr :: string

definition RESULT_SUCCESS :: int where
  "RESULT_SUCCESS = 15"

definition MAX_OUTPUT_LENGTH :: int where
  "MAX_OUTPUT_LENGTH = 30000"

text \<open>
  The table of \<open>diagnose\<close>: each row is \<open>response.error\<close>, \<open>response.result\<close> and the
  language string, in the order of the source.
\<close>

definition ERROR_RESPONSES :: "(int \<times> int \<times> string) list" where
  "ERROR_RESPONSES =
    [(1, 0, ''error_access_denied''),
     (2, 0, ''error_unknown_language''),
     (3, 0, ''error_access_denied''),
     (4, 0, ''error_submission_limit_reached''),
     (5, 0, ''error_sandbox_server_overload''),
     (0, 11, []),
     (0, 12, []),
     (0, 13, ''error_timeout''),
     (0, RESULT_SUCCESS, []),
     (0, 17, ''error_memory_limit''),
     (0, 21, ''error_sandbox_server_overload''),
     (0, 30, ''error_excessive_output'')]"

text \<open>The \<open>for (const row of ERROR_RESPONSES)\<close> loop: the first matching row returns.\<close>

fun diagnose_rows :: "(int \<times> int \<times> string) list \<Rightarrow> response \<Rightarrow> string" where
  "diagnose_rows [] r = ''error_unknown_runtime''"
| "diagnose_rows (row # rows) r =
     (if fst row = error r \<and> (error r \<noteq> 0 \<or> result r = fst (snd row))
      then snd (snd row)
      else diagnose_rows rows r)"

definition diagnose :: "response \<Rightarrow> string" where
  "diagnose r = diagnose_rows ERROR_RESPONSES r"

text \<open>
  \<open>combinedOutput\<close>. \<open>limit\<close> is its inner arrow function; \<open>s.substr(0, maxLen)\<close>
  takes at most \<open>maxLen\<close> characters and none when \<open>maxLen\<close> is negative.
\<close>

definition limit :: "int \<Rightarrow> string \<Rightarrow> string" where
  "limit maxLen s =
     (if int (length s) \<le> maxLen then s else take (nat maxLen) s @ ''... (truncated)'')"

definition combinedOutput :: "response \<Rightarrow> int \<Rightarrow> string" where
  "combinedOutput r maxLen = cmpinfo r @ limit maxLen (output r) @ limit maxLen (stderr r)"

section \<open>Attributes, values and the platform's string functions\<close>

text \<open>
  The values a UI parameter can hold. A string is a list of code units; only the code
  units below 256 are represented. \<open>JNumber\<close> carries the integers \<open>parseInt\<close>
  and the default tables produce (exact below \<open>2 ^ 53\<close>, where the platform's numbers are),
  \<open>JNaN\<close> is the not-a-number value.
\<close>

datatype jsval =
    JUndefined
  | JNull
  | JBool bool
  | JNumber int
  | JNaN
  | JString string
  | JObject "(string \<times> string) list"

datatype exn = TypeError

text \<open>\<open>pre.attributes.getNamedItem\<close>: the value of the attribute, if the element has it.\<close>

type_synonym attributes = "string \<Rightarrow> string option"

type_synonym params = "string \<Rightarrow> jsval option"

definition lowerChar :: "char \<Rightarrow> char" where
  "lowerChar c =
     (let n = (of_char c :: nat)
      in if (65 \<le> n \<and> n \<le> 90) \<or> (192 \<le> n \<and> n \<le> 222 \<and> n \<noteq> 215)
         then char_of (n + 32) else c)"

definition toLowerCase :: "string \<Rightarrow> string" where
  "toLowerCase s = map lowerChar s"

definition isWhiteSpace :: "char \<Rightarrow> bool" where
  "isWhiteSpace c = ((of_char c :: nat) \<in> {9, 10, 11, 12, 13, 32, 160})"

definition digitValue :: "char \<Rightarrow> nat option" where
  "digitValue c =
     (let n = (of_char c :: nat)
      in if 48 \<le> n \<and> n \<le> 57 then Some (n - 48)
         else if 97 \<le> n \<and> n \<le> 122 then Some (n - 87)
         else if 65 \<le> n \<and> n \<le> 90 then Some (n - 55)
         else None)"

definition isDigit :: "nat \<Rightarrow> char \<Rightarrow> bool" where
  "isDigit R c = (case digitValue c of Some d \<Rightarrow> d < R | None \<Rightarrow> False)"

text \<open>
  \<open>parseInt(string)\<close> with no radix: leading white space is skipped, a sign is read,
  \<open>0x\<close> or \<open>0X\<close> selects radix 16, the longest run of digits is the number, and no digit
  at all is not-a-number.
\<close>

definition parseInt :: "string \<Rightarrow> jsval" where
  "parseInt str =
     (let s = dropWhile isWhiteSpace str;
          neg = (take 1 s = ''-'');
          s1 = (if take 1 s = ''+'' \<or> take 1 s = ''-'' then drop 1 s else s);
          hex = (take 2 s1 = ''0x'' \<or> take 2 s1 = ''0X'');
          s2 = (if hex then drop 2 s1 else s1);
          R = (if hex then 16 else 10);
          z = takeWhile (isDigit R) s2;
          mathInt = foldl (\<lambda>a c. a * R + (case digitValue c of Some d \<Rightarrow> d | None \<Rightarrow> 0)) 0 z
      in if z = [] then JNaN
         else JNumber (if neg then - int mathInt else int mathInt))"

definition startsWith :: "string \<Rightarrow> string \<Rightarrow> bool" where
  "startsWith s p = (take (length p) s = p)"

text \<open>\<open>s.split(sep)\<close> for a separator of one character: empty pieces are kept.\<close>

fun split_sep :: "char \<Rightarrow> string \<Rightarrow> string list" where
  "split_sep sep [] = [[]]"
| "split_sep sep (c # cs) =
     (if c = sep then [] # split_sep sep cs
      else (case split_sep sep cs of
              [] \<Rightarrow> [[c]]
            | t # ts \<Rightarrow> (c # t) # ts))"

text \<open>\<open>s.replace(pat, rep)\<close> for a string pattern: the first occurrence only.\<close>

fun replace_first :: "string \<Rightarrow> string \<Rightarrow> string \<Rightarrow> string" where
  "replace_first pat rep [] = (if pat = [] then rep else [])"
| "replace_first pat rep (c # cs) =
     (if startsWith (c # cs) pat then rep @ drop (length pat) (c # cs)
      else c # replace_first pat rep cs)"

text \<open>The decimal digits of an integer, as string concatenation with a number gives them.\<close>

fun showNat :: "nat \<Rightarrow> string" where
  "showNat n =
     (if n < 10 then [char_of (48 + n)]
      else showNat (n div 10) @ [char_of (48 + n mod 10)])"

declare showNat.simps [simp del]

definition showInt :: "int \<Rightarrow> string" where
  "showInt i = (if i < 0 then ''-'' @ showNat (nat (- i)) else showNat (nat i))"

definition escapeChar :: "char \<Rightarrow> string" where
  "escapeChar m =
     (if m = CHR ''&'' then ''&amp;''
      else if m = CHR ''<'' then ''&lt;''
      else if m = CHR ''>'' then ''&gt;''
      else if m = CHR 0x22 then ''&quot;''
      else if m = CHR 0x27 then ''&#039;''
      else [m])"

definition escapeHtml :: "string \<Rightarrow> string" where
  "escapeHtml txt = concat (map escapeChar txt)"

section \<open>Resolving the UI parameters of a pre element\<close>

text \<open>
  The attribute that overrides a parameter: the attribute of that name or, when the
  element has none, the attribute of that name with the \<open>data-\<close> prefix.
\<close>

definition findAttr :: "attributes \<Rightarrow> string \<Rightarrow> string option" where
  "findAttr pre attrName =
     (case pre attrName of
        Some a \<Rightarrow> Some a
      | None \<Rightarrow> pre (''data-'' @ attrName))"

text \<open>
  One round of the \<open>for (const attrName in defaultParams)\<close> loop of
  \<open>getUiParameters\<close>: the value stored under \<open>attrName\<close>.
\<close>

definition uiParameter :: "attributes \<Rightarrow> (string \<times> jsval) list \<Rightarrow> string \<Rightarrow> jsval" where
  "uiParameter pre defaultParams attrName =
     (case findAttr pre attrName of
        Some v \<Rightarrow>
          (if attrName = ''start-line-number''
           then (if toLowerCase v = ''none'' then JNull else parseInt v)
           else if attrName = ''min-lines'' \<or> attrName = ''max-lines'' then parseInt v
           else if attrName = ''hidden'' then JBool True
           else JString v)
      | None \<Rightarrow>
          (case map_of defaultParams attrName of
             Some d \<Rightarrow> d
           | None \<Rightarrow> JUndefined))"

text \<open>
  The objects of \<open>getUiParameters\<close>. The defaults are an object with the own
  properties of the list and the prototype of every plain object. The object under
  construction is its own properties and its prototype, which an assignment to
  \<open>__proto__\<close> can replace.
\<close>

datatype proto =
    ObjectPrototype
  | NullPrototype
  | ObjectValue "(string \<times> string) list"

text \<open>
  The loop guard \<open>defaultParams.hasOwnProperty(attrName)\<close>: an own property of that
  name hides the method, and calling its value is a TypeError.
\<close>

definition hasOwnProperty :: "(string \<times> jsval) list \<Rightarrow> string \<Rightarrow> exn + bool" where
  "hasOwnProperty defaultParams attrName =
     (case map_of defaultParams ''hasOwnProperty'' of
        Some f \<Rightarrow> Inl TypeError
      | None \<Rightarrow> Inr (map_of defaultParams attrName \<noteq> None))"

text \<open>
  The assignment \<open>uiParameters[attrName] = value\<close>. It stores an own property, except
  under the name \<open>__proto__\<close> while the object inherits the setter of that name from
  the prototype of every plain object: the setter replaces the prototype by an object
  or null, ignores any other value, and stores nothing.
\<close>

definition inheritsProtoSetter :: "params \<times> proto \<Rightarrow> bool" where
  "inheritsProtoSetter obj =
     (fst obj ''__proto__'' = None
      \<and> (case snd obj of
            ObjectPrototype \<Rightarrow> True
          | NullPrototype \<Rightarrow> False
          | ObjectValue kv \<Rightarrow> map_of kv ''__proto__'' = None))"

definition setProperty :: "params \<times> proto \<Rightarrow> string \<Rightarrow> jsval \<Rightarrow> params \<times> proto" where
  "setProperty obj attrName v =
     (if attrName = ''__proto__'' \<and> inheritsProtoSetter obj
      then (case v of
              JNull \<Rightarrow> (fst obj, NullPrototype)
            | JObject kv \<Rightarrow> (fst obj, ObjectValue kv)
            | _ \<Rightarrow> obj)
      else ((fst obj)(attrName \<mapsto> v), snd obj))"

text \<open>
  Reading a property that the prototype of every plain object does not define, as
  \<open>class\<close>: the own property, else the property of the prototype, else undefined.
\<close>

definition getProperty :: "params \<times> proto \<Rightarrow> string \<Rightarrow> jsval" where
  "getProperty obj name =
     (case fst obj name of
        Some v \<Rightarrow> v
      | None \<Rightarrow>
          (case snd obj of
             ObjectValue kv \<Rightarrow>
               (case map_of kv name of
                  Some s \<Rightarrow> JString s
                | None \<Rightarrow> JUndefined)
           | _ \<Rightarrow> JUndefined))"

fun paramLoop ::
  "attributes \<Rightarrow> (string \<times> jsval) list \<Rightarrow> string list \<Rightarrow> params \<times> proto
     \<Rightarrow> exn + params \<times> proto" where
  "paramLoop pre defaultParams [] uiParameters = Inr uiParameters"
| "paramLoop pre defaultParams (attrName # names) uiParameters =
     (case hasOwnProperty defaultParams attrName of
        Inl e \<Rightarrow> Inl e
      | Inr own \<Rightarrow>
          paramLoop pre defaultParams names
            (if own
             then setProperty uiParameters attrName (uiParameter pre defaultParams attrName)
             else uiParameters))"

text \<open>
  The body of \<open>splitClass.forEach\<close>, on the own properties: an assignment to \<open>lang\<close>
  always stores an own property.
\<close>

definition langFromClass :: "params \<Rightarrow> string \<Rightarrow> params" where
  "langFromClass uiParameters attribute =
     (if startsWith attribute ''language''
      then uiParameters(''lang'' \<mapsto> JString (replace_first ''language-'' [] attribute))
      else uiParameters)"

text \<open>
  \<open>getUiParameters\<close>. The guard of the loop can raise, and
  \<open>uiParameters['class'].split(" ")\<close> is a TypeError unless the class read from the
  object is a string. The value returned is the own properties of the object returned.
\<close>

definition getUiParameters :: "attributes \<Rightarrow> (string \<times> jsval) list \<Rightarrow> exn + params" where
  "getUiParameters pre defaultParams =
     (case paramLoop pre defaultParams (map fst defaultParams) (Map.empty, ObjectPrototype) of
        Inl e \<Rightarrow> Inl e
      | Inr uiParameters \<Rightarrow>
          (case getProperty uiParameters ''class'' of
             JString c \<Rightarrow> Inr (foldl langFromClass (fst uiParameters) (split_sep CHR '' '' c))
           | _ \<Rightarrow> Inl TypeError))"

text \<open>
  The two tables of defaults, of \<open>applyAceHighlighting\<close> and \<open>applyAceInteractive\<close>;
  the plugin configuration supplies \<open>dark_theme_mode\<close> and \<open>button_label\<close>.
\<close>

definition MIN_WINDOW_LINES :: int where
  "MIN_WINDOW_LINES = 1"

definition MAX_WINDOW_LINES :: int where
  "MAX_WINDOW_LINES = 50"

definition highlightParams :: "jsval \<Rightarrow> (string \<times> jsval) list" where
  "highlightParams dark_theme_mode =
    [(''class'', JString ''ace_highlight_code''),
     (''lang'', JString ''python3''),
     (''ace-lang'', JString []),
     (''font-size'', JString ''11pt''),
     (''start-line-number'', JNull),
     (''min-lines'', JNumber MIN_WINDOW_LINES),
     (''max-lines'', JNumber MAX_WINDOW_LINES),
     (''readonly'', JBool True),
     (''dark-theme-mode'', dark_theme_mode)]"

definition interactiveParams :: "jsval \<Rightarrow> jsval \<Rightarrow> (string \<times> jsval) list" where
  "interactiveParams button_label dark_theme_mode =
    [(''class'', JString ''ace_interactive_code''),
     (''lang'', JString ''python3''),
     (''ace-lang'', JString []),
     (''font-size'', JString ''11pt''),
     (''hidden'', JBool False),
     (''start-line-number'', JNumber 1),
     (''button-name'', button_label),
     (''readonly'', JNull),
     (''stdin'', JString []),
     (''stdin-taid'', JString []),
     (''file-taids'', JObject []),
     (''file-upload-id'', JNull),
     (''prefix'', JString []),
     (''suffix'', JString []),
     (''params'', JString (''{'' @ [CHR 0x22] @ ''cputime'' @ [CHR 0x22] @ '': 5}'')),
     (''code-mapper'', JNull),
     (''html-output'', JNull),
     (''min-lines'', JNumber MIN_WINDOW_LINES),
     (''max-lines'', JNumber MAX_WINDOW_LINES),
     (''max-output-length'', JNumber MAX_OUTPUT_LENGTH),
     (''dark-theme-mode'', dark_theme_mode)]"

section \<open>Presenting the response\<close>

text \<open>
  What the \<open>done\<close> callback of \<open>executeCode\<close> hands to \<open>displayTextOutput\<close> and does
  to the display area: the text, the language string, the raw html inserted after the
  area (the sandbox output, for a successful run in html mode) and the background colour.
\<close>

record display =
  "text" :: string
  langString :: string
  html :: "string option"
  backgroundColor :: string

definition executeCode_done :: "bool \<Rightarrow> int \<Rightarrow> response \<Rightarrow> display" where
  "executeCode_done htmlOutput maxLen r =
     (let err = diagnose r
      in if err = [] then
           (if \<not> htmlOutput \<or> result r \<noteq> RESULT_SUCCESS
            then \<lparr>text = combinedOutput r maxLen, langString = [], html = None,
                  backgroundColor = (if result r \<noteq> RESULT_SUCCESS then ''#ffd'' else ''#eff'')\<rparr>
            else \<lparr>text = [], langString = [], html = Some (output r),
                  backgroundColor = ''#eff''\<rparr>)
         else
           (let extra = (if error r = 0 then combinedOutput r maxLen else []);
                extra2 = (if err = ''error_unknown_runtime''
                          then extra @ (if error r \<noteq> 0
                                        then ''(Sandbox error code '' @ showInt (error r) @ '')''
                                        else ''(Run result: '' @ showInt (result r) @ '')'')
                          else extra)
            in \<lparr>text = extra2, langString = err, html = None, backgroundColor = ''#ffd''\<rparr>))"

text \<open>
  \<open>displayTextOutput\<close>: the string set as the html of the output element. The lookup of
  a language string is the platform's, a parameter here.
\<close>

definition displayTextOutput :: "(string \<Rightarrow> string) \<Rightarrow> string \<Rightarrow> string \<Rightarrow> string" where
  "displayTextOutput getLangString txt lang =
     escapeHtml (if lang \<noteq> []
                 then ''*** '' @ getLangString lang @ '' ***'' @ [CHR 0x0A] @ txt
                 else txt)"

definition presented :: "(string \<Rightarrow> string) \<Rightarrow> bool \<Rightarrow> int \<Rightarrow> response \<Rightarrow> string" where
  "presented getLangString htmlOutput maxLen r =
     (let d = executeCode_done htmlOutput maxLen r
      in displayTextOutput getLangString (text d) (langString d))"

section \<open>Wording of the specification, for comparison\<close>

text \<open>The spellings of \<open>none\<close> in every letter case.\<close>

definition noneSpellings :: "string list" where
  "noneSpellings =
    [''none'', ''nonE'', ''noNe'', ''noNE'', ''nOne'', ''nOnE'', ''nONe'', ''nONE'',
     ''None'', ''NonE'', ''NoNe'', ''NoNE'', ''NOne'', ''NOnE'', ''NONe'', ''NONE'']"

text \<open>
  The post-processing of the class as the specification words it, to be compared with
  \<open>langFromClass\<close> and \<open>split_sep\<close> of the source: the class is split on white space,
  and a token beginning with the prefix \<open>language\<close> sets \<open>lang\<close> to the remainder of
  the token after that prefix.
\<close>

fun spec_tokens :: "string \<Rightarrow> string list" where
  "spec_tokens [] = [[]]"
| "spec_tokens (c # cs) =
     (if isWhiteSpace c then [] # spec_tokens cs
      else (case spec_tokens cs of
              [] \<Rightarrow> [[c]]
            | t # ts \<Rightarrow> (c # t) # ts))"

definition spec_langFromClass :: "params \<Rightarrow> string \<Rightarrow> params" where
  "spec_langFromClass uiParameters token =
     (if startsWith token ''language''
      then uiParameters(''lang'' \<mapsto> JString (drop (length ''language'') token))
      else uiParameters)"

definition spec_postprocess :: "params \<Rightarrow> string \<Rightarrow> params" where
  "spec_postprocess uiParameters c = foldl spec_langFromClass uiParameters (spec_tokens c)"

section \<open>Properties of the diagnosis\<close>

lemma diagnose_eq:
  "diagnose r =
    (if error r = 1 \<or> error r = 3 then ''error_access_denied''
     else if error r = 2 then ''error_unknown_language''
     else if error r = 4 then ''error_submission_limit_reached''
     else if error r = 5 then ''error_sandbox_server_overload''
     else if error r \<noteq> 0 then ''error_unknown_runtime''
     else if result r = 11 \<or> result r = 12 \<or> result r = 15 then ''''
     else if result r = 13 then ''error_timeout''
     else if result r = 17 then ''error_memory_limit''
     else if result r = 21 then ''error_sandbox_server_overload''
     else if result r = 30 then ''error_excessive_output''
     else ''error_unknown_runtime'')"
  by (simp add: diagnose_def ERROR_RESPONSES_def RESULT_SUCCESS_def)

text \<open>
  C1. A response whose \<open>error\<close> is 1, 2, 3, 4 or 5 is diagnosed by \<open>error\<close> alone: the
  language strings are \<open>error_access_denied\<close>, \<open>error_unknown_language\<close>,
  \<open>error_access_denied\<close>, \<open>error_submission_limit_reached\<close> and
  \<open>error_sandbox_server_overload\<close> (the categories, each under the key the source gives
  it), and changing \<open>result\<close> to any value changes nothing.
\<close>

theorem diagnose_sandbox_error:
  assumes "error r \<in> {1, 2, 3, 4, 5}"
  shows "diagnose r =
           (if error r = 1 then ''error_access_denied''
            else if error r = 2 then ''error_unknown_language''
            else if error r = 3 then ''error_access_denied''
            else if error r = 4 then ''error_submission_limit_reached''
            else ''error_sandbox_server_overload'')
         \<and> diagnose (r\<lparr>result := x\<rparr>) = diagnose r"
  using assms by (auto simp add: diagnose_eq)

theorem diagnose_sandbox_error_witness:
  "error \<lparr>error = 5, result = 0, cmpinfo = [], output = [], stderr = []\<rparr> \<in> {1, 2, 3, 4, 5}
   \<and> diagnose \<lparr>error = 5, result = 0, cmpinfo = [], output = [], stderr = []\<rparr>
       = ''error_sandbox_server_overload''
   \<and> diagnose (\<lparr>error = 5, result = 0, cmpinfo = [], output = [], stderr = []\<rparr>
                  \<lparr>result := 13\<rparr>)
       = diagnose \<lparr>error = 5, result = 0, cmpinfo = [], output = [], stderr = []\<rparr>"
  using diagnose_sandbox_error
    [of "\<lparr>error = 5, result = 0, cmpinfo = [], output = [], stderr = []\<rparr>" 13]
  by simp

text \<open>
  C2. With \<open>error = 0\<close>, the results 11, 12 and 15 give the empty language string, and
  13, 17, 21 and 30 give \<open>error_timeout\<close>, \<open>error_memory_limit\<close>,
  \<open>error_sandbox_server_overload\<close> and \<open>error_excessive_output\<close>.
\<close>

theorem diagnose_run_result:
  assumes "error r = 0"
  shows "(result r \<in> {11, 12, 15} \<longrightarrow> diagnose r = [])
       \<and> (result r = 13 \<longrightarrow> diagnose r = ''error_timeout'')
       \<and> (result r = 17 \<longrightarrow> diagnose r = ''error_memory_limit'')
       \<and> (result r = 21 \<longrightarrow> diagnose r = ''error_sandbox_server_overload'')
       \<and> (result r = 30 \<longrightarrow> diagnose r = ''error_excessive_output'')"
  using assms by (auto simp add: diagnose_eq)

theorem diagnose_run_result_witness:
  "diagnose \<lparr>error = 0, result = 11, cmpinfo = [], output = [], stderr = []\<rparr> = []
   \<and> diagnose \<lparr>error = 0, result = 12, cmpinfo = [], output = [], stderr = []\<rparr> = []
   \<and> diagnose \<lparr>error = 0, result = 15, cmpinfo = [], output = [], stderr = []\<rparr> = []
   \<and> diagnose \<lparr>error = 0, result = 13, cmpinfo = [], output = [], stderr = []\<rparr>
       = ''error_timeout''
   \<and> diagnose \<lparr>error = 0, result = 17, cmpinfo = [], output = [], stderr = []\<rparr>
       = ''error_memory_limit''
   \<and> diagnose \<lparr>error = 0, result = 21, cmpinfo = [], output = [], stderr = []\<rparr>
       = ''error_sandbox_server_overload''
   \<and> diagnose \<lparr>error = 0, result = 30, cmpinfo = [], output = [], stderr = []\<rparr>
       = ''error_excessive_output''"
  using
    diagnose_run_result [of "\<lparr>error = 0, result = 11, cmpinfo = [], output = [], stderr = []\<rparr>"]
    diagnose_run_result [of "\<lparr>error = 0, result = 12, cmpinfo = [], output = [], stderr = []\<rparr>"]
    diagnose_run_result [of "\<lparr>error = 0, result = 15, cmpinfo = [], output = [], stderr = []\<rparr>"]
    diagnose_run_result [of "\<lparr>error = 0, result = 13, cmpinfo = [], output = [], stderr = []\<rparr>"]
    diagnose_run_result [of "\<lparr>error = 0, result = 17, cmpinfo = [], output = [], stderr = []\<rparr>"]
    diagnose_run_result [of "\<lparr>error = 0, result = 21, cmpinfo = [], output = [], stderr = []\<rparr>"]
    diagnose_run_result [of "\<lparr>error = 0, result = 30, cmpinfo = [], output = [], stderr = []\<rparr>"]
  by simp

text \<open>
  C3. A response that no row of the table matches, that is \<open>error = 0\<close> with a result
  outside 11, 12, 13, 15, 17, 21, 30, or an \<open>error\<close> outside 0 to 5, is diagnosed
  \<open>error_unknown_runtime\<close>.
\<close>

theorem diagnose_unknown:
  assumes "(error r = 0 \<and> result r \<notin> {11, 12, 13, 15, 17, 21, 30})
           \<or> error r \<notin> {0, 1, 2, 3, 4, 5}"
  shows "diagnose r = ''error_unknown_runtime''"
  using assms by (auto simp add: diagnose_eq)

theorem diagnose_unknown_witness:
  "error \<lparr>error = 0, result = 99, cmpinfo = [], output = ''x'', stderr = []\<rparr> = 0
   \<and> result \<lparr>error = 0, result = 99, cmpinfo = [], output = ''x'', stderr = []\<rparr>
       \<notin> {11, 12, 13, 15, 17, 21, 30}
   \<and> diagnose \<lparr>error = 0, result = 99, cmpinfo = [], output = ''x'', stderr = []\<rparr>
       = ''error_unknown_runtime''
   \<and> error \<lparr>error = 7, result = 15, cmpinfo = [], output = [], stderr = []\<rparr>
       \<notin> {0, 1, 2, 3, 4, 5}
   \<and> diagnose \<lparr>error = 7, result = 15, cmpinfo = [], output = [], stderr = []\<rparr>
       = ''error_unknown_runtime''"
  using
    diagnose_unknown [of "\<lparr>error = 0, result = 99, cmpinfo = [], output = ''x'', stderr = []\<rparr>"]
    diagnose_unknown [of "\<lparr>error = 7, result = 15, cmpinfo = [], output = [], stderr = []\<rparr>"]
  by simp

section \<open>Properties of the combined output\<close>

text \<open>
  C4, as the code has it. For a response diagnosed with the empty language string and a
  maximum length that is not negative, the text assembled by the \<open>done\<close> callback is
  \<open>cmpinfo\<close>, then the limited \<open>output\<close>, then the limited \<open>stderr\<close>, and this text
  escaped is what is presented, unless the run succeeded in html mode: then the text is
  empty and the output is inserted as html, neither limited nor joined to the rest.
  Every string is limited on its own: the limited string keeps the first \<open>maxLen\<close>
  characters, and a string longer than \<open>maxLen\<close> becomes these characters followed by
  \<open>... (truncated)\<close>, of length \<open>maxLen\<close> plus the length of that marker.
\<close>

theorem empty_category_output:
  assumes "diagnose r = []"
    and "0 \<le> maxLen"
  shows "(\<not> h \<or> result r \<noteq> RESULT_SUCCESS \<longrightarrow>
            text (executeCode_done h maxLen r)
              = cmpinfo r @ limit maxLen (output r) @ limit maxLen (stderr r)
            \<and> html (executeCode_done h maxLen r) = None
            \<and> presented L h maxLen r
                = escapeHtml (cmpinfo r @ limit maxLen (output r) @ limit maxLen (stderr r)))
       \<and> (h \<and> result r = RESULT_SUCCESS \<longrightarrow>
            text (executeCode_done h maxLen r) = []
            \<and> html (executeCode_done h maxLen r) = Some (output r))
       \<and> take (nat maxLen) (limit maxLen s) = take (nat maxLen) s
       \<and> (maxLen < int (length s) \<longrightarrow>
            limit maxLen s = take (nat maxLen) s @ ''... (truncated)''
            \<and> int (length (limit maxLen s)) = maxLen + int (length ''... (truncated)''))"
proof -
  have "\<not> h \<or> result r \<noteq> RESULT_SUCCESS \<longrightarrow>
          text (executeCode_done h maxLen r)
            = cmpinfo r @ limit maxLen (output r) @ limit maxLen (stderr r)
          \<and> html (executeCode_done h maxLen r) = None
          \<and> presented L h maxLen r
              = escapeHtml (cmpinfo r @ limit maxLen (output r) @ limit maxLen (stderr r))"
    using assms(1)
    by (auto simp add: presented_def executeCode_done_def displayTextOutput_def
        combinedOutput_def Let_def)
  moreover have "h \<and> result r = RESULT_SUCCESS \<longrightarrow>
          text (executeCode_done h maxLen r) = []
          \<and> html (executeCode_done h maxLen r) = Some (output r)"
    using assms(1) by (simp add: executeCode_done_def Let_def)
  moreover have "take (nat maxLen) (limit maxLen s) = take (nat maxLen) s"
    using assms(2) by (simp add: limit_def)
  moreover have "maxLen < int (length s) \<longrightarrow>
          limit maxLen s = take (nat maxLen) s @ ''... (truncated)''
          \<and> int (length (limit maxLen s)) = maxLen + int (length ''... (truncated)'')"
    using assms(2) by (auto simp add: limit_def)
  ultimately show ?thesis by blast
qed

theorem empty_category_output_witness:
  "diagnose \<lparr>error = 0, result = 15, cmpinfo = ''c'', output = ''abc'', stderr = ''e''\<rparr> = []
   \<and> (0::int) \<le> 2 \<and> 2 < int (length ''abc'')
   \<and> text (executeCode_done False 2
             \<lparr>error = 0, result = 15, cmpinfo = ''c'', output = ''abc'', stderr = ''e''\<rparr>)
       = ''cab... (truncated)e''
   \<and> html (executeCode_done True 2
             \<lparr>error = 0, result = 15, cmpinfo = ''c'', output = ''abc'', stderr = ''e''\<rparr>)
       = Some ''abc''
   \<and> limit 2 ''abc'' = ''ab... (truncated)''
   \<and> int (length (limit 2 ''abc'')) = 2 + int (length ''... (truncated)'')"
  using
    empty_category_output
      [of "\<lparr>error = 0, result = 15, cmpinfo = ''c'', output = ''abc'', stderr = ''e''\<rparr>"
        2 False id "''abc''"]
    empty_category_output
      [of "\<lparr>error = 0, result = 15, cmpinfo = ''c'', output = ''abc'', stderr = ''e''\<rparr>"
        2 True id "''abc''"]
  by (simp add: diagnose_eq limit_def RESULT_SUCCESS_def)

text \<open>
  The claim as the specification states it fails in two ways. A successful run in html
  mode has the empty language string, and its assembled text is empty, not the
  combined output. And at a negative maximum length \<open>substr\<close> takes no character, so
  that a limited string is the marker alone, of length 15 and not \<open>maxLen + 15\<close>.
\<close>

theorem empty_category_output_counterexample:
  "diagnose \<lparr>error = 0, result = 15, cmpinfo = ''c'', output = ''abc'', stderr = ''e''\<rparr> = []
   \<and> text (executeCode_done True 2
             \<lparr>error = 0, result = 15, cmpinfo = ''c'', output = ''abc'', stderr = ''e''\<rparr>) = []
   \<and> combinedOutput \<lparr>error = 0, result = 15, cmpinfo = ''c'', output = ''abc'', stderr = ''e''\<rparr> 2
       = ''cab... (truncated)e''
   \<and> text (executeCode_done False (- 5)
             \<lparr>error = 0, result = 15, cmpinfo = ''c'', output = ''abc'', stderr = ''e''\<rparr>)
       = ''c... (truncated)... (truncated)''
   \<and> \<not> (- 5 < int (length ''abc'') \<longrightarrow>
          int (length (limit (- 5) ''abc'')) = - 5 + int (length ''... (truncated)''))"
  by (simp add: diagnose_eq executeCode_done_def combinedOutput_def limit_def
      RESULT_SUCCESS_def)

text \<open>
  C10. The limit is strict: a string of length \<open>maxLen\<close> or less is returned as it is,
  a string is changed only when it is strictly longer than \<open>maxLen\<close> (and is then cut and
  given the marker), and \<open>cmpinfo\<close> starts the combined output whole, whatever its length.
\<close>

theorem limit_boundary:
  "(int (length s) \<le> maxLen \<longrightarrow> limit maxLen s = s)
   \<and> (limit maxLen s \<noteq> s \<longrightarrow>
        maxLen < int (length s) \<and> limit maxLen s = take (nat maxLen) s @ ''... (truncated)'')
   \<and> take (length (cmpinfo r)) (combinedOutput r maxLen) = cmpinfo r
   \<and> drop (length (cmpinfo r)) (combinedOutput r maxLen)
       = limit maxLen (output r) @ limit maxLen (stderr r)"
  by (auto simp add: combinedOutput_def limit_def)

theorem limit_boundary_witness:
  "int (length ''abc'') \<le> 3 \<and> limit 3 ''abc'' = ''abc''
   \<and> limit 2 ''abc'' \<noteq> ''abc'' \<and> 2 < int (length ''abc'')
   \<and> limit 2 ''abc'' = ''ab... (truncated)''
   \<and> combinedOutput \<lparr>error = 0, result = 15, cmpinfo = ''long'', output = ''abc'', stderr = []\<rparr> 3
       = ''longabc''"
  using limit_boundary
    [of "''abc''" 3 "\<lparr>error = 0, result = 15, cmpinfo = ''long'', output = ''abc'', stderr = []\<rparr>"]
    limit_boundary
    [of "''abc''" 2 "\<lparr>error = 0, result = 15, cmpinfo = ''long'', output = ''abc'', stderr = []\<rparr>"]
  by (simp add: combinedOutput_def limit_def)

section \<open>Properties of the parameter resolution\<close>

lemma foldl_langFromClass_other:
  "k \<noteq> ''lang'' \<Longrightarrow> foldl langFromClass ui toks k = ui k"
  by (induction toks arbitrary: ui) (auto simp add: langFromClass_def)

lemma foldl_langFromClass_lang:
  "foldl langFromClass ui toks ''lang'' =
     (if filter (\<lambda>t. startsWith t ''language'') toks = [] then ui ''lang''
      else Some (JString (replace_first ''language-'' []
                   (last (filter (\<lambda>t. startsWith t ''language'') toks)))))"
proof (induction toks rule: rev_induct)
  case Nil
  show ?case by simp
next
  case (snoc t toks)
  show ?case
  proof (cases "startsWith t ''language''")
    case True
    then show ?thesis by (simp add: langFromClass_def)
  next
    case False
    then show ?thesis using snoc by (simp add: langFromClass_def)
  qed
qed

lemma uiParameter_default:
  "k \<in> fst ` set dp \<Longrightarrow> findAttr pre k = None \<Longrightarrow> Some (uiParameter pre dp k) = map_of dp k"
  by (auto simp add: uiParameter_def map_of_eq_None_iff split: option.splits)

lemma replace_first_prefix:
  "pat \<noteq> [] \<Longrightarrow> replace_first pat rep (pat @ x) = rep @ x"
  by (cases pat) (simp_all add: startsWith_def)

lemma lowerChar_eq:
  "lowerChar c = d \<longleftrightarrow>
     (let n = (of_char c :: nat)
      in if (65 \<le> n \<and> n \<le> 90) \<or> (192 \<le> n \<and> n \<le> 222 \<and> n \<noteq> 215)
         then (of_char d :: nat) = n + 32 else c = d)"
proof -
  have "char_of (n + 32) = d \<longleftrightarrow> (of_char d :: nat) = n + 32" if "n \<le> 222" for n :: nat
  proof -
    have "char_of (n + 32) = d \<longleftrightarrow> (n + 32) mod 256 = (of_char d :: nat)"
      by (simp add: char_of_eq_iff take_bit_eq_mod)
    also have "(n + 32) mod 256 = n + 32" using that by simp
    finally show ?thesis by auto
  qed
  then show ?thesis by (auto simp add: lowerChar_def Let_def)
qed

lemma of_char_upper:
  "(of_char c :: nat) = 78 \<longleftrightarrow> c = CHR ''N''"
  "(of_char c :: nat) = 79 \<longleftrightarrow> c = CHR ''O''"
  "(of_char c :: nat) = 69 \<longleftrightarrow> c = CHR ''E''"
proof -
  have "(of_char c :: nat) = 78 \<longleftrightarrow> (of_char c :: nat) = of_char CHR ''N''" by simp
  then show "(of_char c :: nat) = 78 \<longleftrightarrow> c = CHR ''N''" by (simp only: of_char_eq_iff)
  have "(of_char c :: nat) = 79 \<longleftrightarrow> (of_char c :: nat) = of_char CHR ''O''" by simp
  then show "(of_char c :: nat) = 79 \<longleftrightarrow> c = CHR ''O''" by (simp only: of_char_eq_iff)
  have "(of_char c :: nat) = 69 \<longleftrightarrow> (of_char c :: nat) = of_char CHR ''E''" by simp
  then show "(of_char c :: nat) = 69 \<longleftrightarrow> c = CHR ''E''" by (simp only: of_char_eq_iff)
qed

lemma lowerChar_n: "lowerChar c = CHR ''n'' \<longleftrightarrow> c = CHR ''n'' \<or> c = CHR ''N''"
  by (auto simp add: lowerChar_eq Let_def of_char_upper)

lemma lowerChar_o: "lowerChar c = CHR ''o'' \<longleftrightarrow> c = CHR ''o'' \<or> c = CHR ''O''"
  by (auto simp add: lowerChar_eq Let_def of_char_upper)

lemma lowerChar_e: "lowerChar c = CHR ''e'' \<longleftrightarrow> c = CHR ''e'' \<or> c = CHR ''E''"
  by (auto simp add: lowerChar_eq Let_def of_char_upper)

lemma toLowerCase_none: "toLowerCase v = ''none'' \<longleftrightarrow> v \<in> set noneSpellings"
proof -
  have "toLowerCase v = ''none'' \<longleftrightarrow>
          (\<exists>a b c d. v = [a, b, c, d] \<and> lowerChar a = CHR ''n'' \<and> lowerChar b = CHR ''o''
                     \<and> lowerChar c = CHR ''n'' \<and> lowerChar d = CHR ''e'')"
    by (auto simp add: toLowerCase_def map_eq_Cons_conv)
  also have "\<dots> \<longleftrightarrow> v \<in> set noneSpellings"
    unfolding lowerChar_n lowerChar_o lowerChar_e noneSpellings_def by auto
  finally show ?thesis .
qed

lemma hasOwnProperty_key:
  "''hasOwnProperty'' \<notin> fst ` set dp \<Longrightarrow> a \<in> fst ` set dp \<Longrightarrow> hasOwnProperty dp a = Inr True"
  by (auto simp add: hasOwnProperty_def map_of_eq_None_iff split: option.splits)

lemma hasOwnProperty_Inr:
  "hasOwnProperty dp a = Inr b \<Longrightarrow> a \<in> fst ` set dp \<Longrightarrow> b"
  by (auto simp add: hasOwnProperty_def map_of_eq_None_iff split: option.splits)

lemma setProperty_own:
  "k \<noteq> ''__proto__'' \<Longrightarrow> fst (setProperty obj a v) k = (if k = a then Some v else fst obj k)"
  by (auto simp add: setProperty_def split: jsval.splits)

lemma paramLoop_own:
  "paramLoop pre dp ks obj = Inr obj' \<Longrightarrow> set ks \<subseteq> fst ` set dp \<Longrightarrow> k \<noteq> ''__proto__'' \<Longrightarrow>
     fst obj' k = (if k \<in> set ks then Some (uiParameter pre dp k) else fst obj k)"
proof (induction ks arbitrary: obj)
  case Nil
  then show ?case by simp
next
  case (Cons a ks)
  from Cons.prems(1) obtain b where b: "hasOwnProperty dp a = Inr b"
    by (auto split: sum.splits)
  with Cons.prems(2) have "b"
    using hasOwnProperty_Inr [of dp a b] by simp
  with b Cons.prems(1)
  have "paramLoop pre dp ks (setProperty obj a (uiParameter pre dp a)) = Inr obj'"
    by simp
  then have "fst obj' k =
      (if k \<in> set ks then Some (uiParameter pre dp k)
       else fst (setProperty obj a (uiParameter pre dp a)) k)"
    using Cons.prems(2,3) by (intro Cons.IH) auto
  then show ?case
    using Cons.prems(3) by (auto simp add: setProperty_own)
qed

lemma paramLoop_returns:
  "''hasOwnProperty'' \<notin> fst ` set dp \<Longrightarrow> \<exists>obj'. paramLoop pre dp ks obj = Inr obj'"
  by (induction ks arbitrary: obj)
    (auto simp add: hasOwnProperty_def map_of_eq_None_iff split: option.splits)

lemma getProperty_own: "fst obj name = Some v \<Longrightarrow> getProperty obj name = v"
  by (simp add: getProperty_def)

lemma getUiParameters_InrD:
  assumes "getUiParameters pre dp = Inr ui"
  shows "\<exists>obj c. paramLoop pre dp (map fst dp) (Map.empty, ObjectPrototype) = Inr obj
           \<and> ui = foldl langFromClass (fst obj) (split_sep CHR '' '' c)"
  using assms by (auto simp add: getUiParameters_def split: sum.splits jsval.splits)

lemma getUiParameters_InrI:
  assumes "''class'' \<in> fst ` set dp"
    and "uiParameter pre dp ''class'' = JString c"
    and "''hasOwnProperty'' \<notin> fst ` set dp"
  shows "\<exists>own. getUiParameters pre dp = Inr (foldl langFromClass own (split_sep CHR '' '' c))
           \<and> (\<forall>k. k \<noteq> ''__proto__'' \<longrightarrow>
                 own k = (if k \<in> fst ` set dp then Some (uiParameter pre dp k) else None))"
proof -
  from assms(3) obtain obj
    where obj: "paramLoop pre dp (map fst dp) (Map.empty, ObjectPrototype) = Inr obj"
    using paramLoop_returns by blast
  have own: "fst obj k = (if k \<in> fst ` set dp then Some (uiParameter pre dp k) else None)"
    if "k \<noteq> ''__proto__''" for k
    using paramLoop_own [OF obj _ that] by simp
  from own [of "''class''"] assms(1,2) have "getProperty obj ''class'' = JString c"
    by (simp add: getProperty_own)
  with obj have "getUiParameters pre dp = Inr (foldl langFromClass (fst obj) (split_sep CHR '' '' c))"
    by (simp add: getUiParameters_def)
  with own show ?thesis by blast
qed

text \<open>
  C5, as the code has it. When the defaults have a \<open>class\<close> entry, the value the loop
  stores under \<open>class\<close> is a string \<open>c\<close> (the element's \<open>class\<close> or \<open>data-class\<close>
  attribute, else a string default) and no key of the defaults is \<open>hasOwnProperty\<close>,
  \<open>getUiParameters\<close> returns a configuration with a value for every key of the
  defaults other than \<open>__proto__\<close>; such a key with no override keeps its default
  unchanged, except that \<open>lang\<close> keeps it only when no token of \<open>c\<close> begins with
  \<open>language\<close>.
\<close>

theorem getUiParameters_complete:
  assumes "''class'' \<in> fst ` set dp"
    and "uiParameter pre dp ''class'' = JString c"
    and "''hasOwnProperty'' \<notin> fst ` set dp"
  shows "\<exists>ui. getUiParameters pre dp = Inr ui
           \<and> (\<forall>k \<in> fst ` set dp. k \<noteq> ''__proto__'' \<longrightarrow>
                 ui k \<noteq> None
                 \<and> (findAttr pre k = None
                      \<and> (k = ''lang'' \<longrightarrow>
                            filter (\<lambda>t. startsWith t ''language'') (split_sep CHR '' '' c) = [])
                    \<longrightarrow> ui k = map_of dp k))"
proof -
  from getUiParameters_InrI [OF assms] obtain own
    where ret: "getUiParameters pre dp = Inr (foldl langFromClass own (split_sep CHR '' '' c))"
      and own: "\<And>k. k \<noteq> ''__proto__'' \<Longrightarrow>
                  own k = (if k \<in> fst ` set dp then Some (uiParameter pre dp k) else None)"
    by blast
  define ui where "ui = foldl langFromClass own (split_sep CHR '' '' c)"
  have "ui k \<noteq> None" if "k \<in> fst ` set dp" and "k \<noteq> ''__proto__''" for k
  proof (cases "k = ''lang''")
    case True
    with that show ?thesis
      by (simp add: ui_def foldl_langFromClass_lang own)
  next
    case False
    with that show ?thesis
      by (simp add: ui_def foldl_langFromClass_other own)
  qed
  moreover have "ui k = map_of dp k"
    if "k \<in> fst ` set dp" and "k \<noteq> ''__proto__''" and "findAttr pre k = None"
      and "k = ''lang'' \<longrightarrow>
             filter (\<lambda>t. startsWith t ''language'') (split_sep CHR '' '' c) = []" for k
  proof (cases "k = ''lang''")
    case True
    with that show ?thesis
      using uiParameter_default [of k dp pre]
      by (simp add: ui_def foldl_langFromClass_lang own)
  next
    case False
    with that show ?thesis
      using uiParameter_default [of k dp pre]
      by (simp add: ui_def foldl_langFromClass_other own)
  qed
  ultimately show ?thesis using ret unfolding ui_def by blast
qed

theorem getUiParameters_complete_witness:
  "''class'' \<in> fst ` set (highlightParams (JNumber 0))
   \<and> uiParameter (map_of [(''class'', ''ace-highlight-code'')]) (highlightParams (JNumber 0)) ''class''
       = JString ''ace-highlight-code''
   \<and> ''hasOwnProperty'' \<notin> fst ` set (highlightParams (JNumber 0))
   \<and> \<not> isl (getUiParameters (map_of [(''class'', ''ace-highlight-code'')])
               (highlightParams (JNumber 0)))
   \<and> projr (getUiParameters (map_of [(''class'', ''ace-highlight-code'')])
              (highlightParams (JNumber 0))) ''lang'' = Some (JString ''python3'')
   \<and> projr (getUiParameters (map_of [(''class'', ''ace-highlight-code'')])
              (highlightParams (JNumber 0))) ''max-lines'' = Some (JNumber 50)"
proof -
  let ?P = "map_of [(''class'', ''ace-highlight-code'')]"
  let ?D = "highlightParams (JNumber 0)"
  have a: "''class'' \<in> fst ` set ?D" and h: "''hasOwnProperty'' \<notin> fst ` set ?D"
    by (simp_all add: highlightParams_def)
  have b: "uiParameter ?P ?D ''class'' = JString ''ace-highlight-code''"
    by (simp add: uiParameter_def findAttr_def)
  obtain ui where u: "getUiParameters ?P ?D = Inr ui"
    and k: "\<forall>k \<in> fst ` set ?D. k \<noteq> ''__proto__'' \<longrightarrow>
              ui k \<noteq> None
              \<and> (findAttr ?P k = None
                   \<and> (k = ''lang'' \<longrightarrow>
                         filter (\<lambda>t. startsWith t ''language'')
                           (split_sep CHR '' '' ''ace-highlight-code'') = [])
                 \<longrightarrow> ui k = map_of ?D k)"
    using getUiParameters_complete [OF a b h] by blast
  have l: "''lang'' \<in> fst ` set ?D" and m: "''max-lines'' \<in> fst ` set ?D"
    by (simp_all add: highlightParams_def)
  have "ui ''lang'' = map_of ?D ''lang''"
    using bspec [OF k l] by (simp add: findAttr_def startsWith_def)
  moreover have "ui ''max-lines'' = map_of ?D ''max-lines''"
    using bspec [OF k m] by (simp add: findAttr_def)
  ultimately have "ui ''lang'' = Some (JString ''python3'')" and "ui ''max-lines'' = Some (JNumber 50)"
    by (simp_all add: highlightParams_def MAX_WINDOW_LINES_def)
  with a b h u show ?thesis by simp
qed

text \<open>
  The claim as the specification states it fails in four ways. With the defaults of
  \<open>applyAceHighlighting\<close>, an element of class \<open>ace-highlight-code language-java\<close>
  that has no \<open>lang\<close> and no \<open>data-lang\<close> attribute resolves \<open>lang\<close> to \<open>java\<close>, not
  to the default \<open>python3\<close>. And for every defaults mapping: a key \<open>__proto__\<close> is
  missing from the configuration returned; a key \<open>hasOwnProperty\<close> makes the guard of
  the loop raise; and without a \<open>class\<close> entry \<open>split\<close> raises.
\<close>

theorem getUiParameters_complete_counterexample:
  "findAttr (map_of [(''class'', ''ace-highlight-code language-java'')]) ''lang'' = None
   \<and> map_of (highlightParams (JNumber 0)) ''lang'' = Some (JString ''python3'')
   \<and> \<not> isl (getUiParameters (map_of [(''class'', ''ace-highlight-code language-java'')])
               (highlightParams (JNumber 0)))
   \<and> projr (getUiParameters (map_of [(''class'', ''ace-highlight-code language-java'')])
              (highlightParams (JNumber 0))) ''lang'' = Some (JString ''java'')
   \<and> \<not> isl (getUiParameters (map_of [])
               [(''class'', JString ''ace_highlight_code''), (''__proto__'', JString ''x'')])
   \<and> projr (getUiParameters (map_of [])
              [(''class'', JString ''ace_highlight_code''), (''__proto__'', JString ''x'')])
        ''__proto__'' = None
   \<and> getUiParameters (map_of [])
        [(''class'', JString ''ace_highlight_code''), (''hasOwnProperty'', JBool True)]
       = Inl TypeError
   \<and> getUiParameters (map_of []) [(''lang'', JString ''python3'')] = Inl TypeError"
  by (simp add: getUiParameters_def uiParameter_def findAttr_def highlightParams_def
      hasOwnProperty_def setProperty_def getProperty_def inheritsProtoSetter_def
      langFromClass_def startsWith_def)

text \<open>
  C6. When \<open>getUiParameters\<close> returns and the element declares an override \<open>v\<close> for a
  key \<open>K\<close> of the defaults (the attribute \<open>K\<close>, else \<open>data-K\<close>), the value is coerced by
  \<open>K\<close>: \<open>start-line-number\<close> gives null when \<open>v\<close> is \<open>none\<close> in any letter case and
  \<open>parseInt v\<close> otherwise; \<open>min-lines\<close> and \<open>max-lines\<close> give \<open>parseInt v\<close>;
  \<open>hidden\<close> gives true whatever \<open>v\<close> is, and keeps its default when the element has
  neither attribute.
\<close>

theorem getUiParameters_coerces:
  assumes "getUiParameters pre dp = Inr ui"
    and "K \<in> fst ` set dp"
  shows "(findAttr pre K = Some v \<longrightarrow>
            (K = ''start-line-number'' \<longrightarrow>
               ui K = Some (if v \<in> set noneSpellings then JNull else parseInt v))
          \<and> (K = ''min-lines'' \<or> K = ''max-lines'' \<longrightarrow> ui K = Some (parseInt v))
          \<and> (K = ''hidden'' \<longrightarrow> ui K = Some (JBool True)))
       \<and> (findAttr pre K = None \<and> K = ''hidden'' \<longrightarrow> ui K = map_of dp K)"
proof -
  from getUiParameters_InrD [OF assms(1)] obtain obj c
    where obj: "paramLoop pre dp (map fst dp) (Map.empty, ObjectPrototype) = Inr obj"
      and ui: "ui = foldl langFromClass (fst obj) (split_sep CHR '' '' c)"
    by blast
  have stored: "ui K = Some (uiParameter pre dp K)" if "K \<noteq> ''lang''" and "K \<noteq> ''__proto__''"
    using that assms(2) paramLoop_own [OF obj _ that(2)]
    by (simp add: ui foldl_langFromClass_other)
  have "ui K = Some (if v \<in> set noneSpellings then JNull else parseInt v)"
    if "findAttr pre K = Some v" and "K = ''start-line-number''"
    using that stored by (simp add: uiParameter_def toLowerCase_none)
  moreover have "ui K = Some (parseInt v)"
    if "findAttr pre K = Some v" and "K = ''min-lines'' \<or> K = ''max-lines''"
    using that stored by (auto simp add: uiParameter_def)
  moreover have "ui K = Some (JBool True)"
    if "findAttr pre K = Some v" and "K = ''hidden''"
    using that stored by (simp add: uiParameter_def)
  moreover have "ui K = map_of dp K"
    if "findAttr pre K = None" and "K = ''hidden''"
    using that stored uiParameter_default [OF assms(2), of pre] by simp
  ultimately show ?thesis by blast
qed

lemma getUiParameters_projr:
  assumes "''class'' \<in> fst ` set dp"
    and "uiParameter pre dp ''class'' = JString c"
    and "''hasOwnProperty'' \<notin> fst ` set dp"
  shows "getUiParameters pre dp = Inr (projr (getUiParameters pre dp))"
proof -
  from getUiParameters_InrI [OF assms] obtain ui where "getUiParameters pre dp = Inr ui"
    by blast
  then show ?thesis by simp
qed

theorem getUiParameters_coerces_witness:
  "\<not> isl (getUiParameters
            (map_of [(''start-line-number'', ''NoNe''), (''data-min-lines'', ''3''),
                     (''max-lines'', ''20x''), (''hidden'', ''false'')])
            (interactiveParams (JString ''Run'') (JNumber 0)))
   \<and> projr (getUiParameters
            (map_of [(''start-line-number'', ''NoNe''), (''data-min-lines'', ''3''),
                     (''max-lines'', ''20x''), (''hidden'', ''false'')])
            (interactiveParams (JString ''Run'') (JNumber 0))) ''start-line-number'' = Some JNull
   \<and> projr (getUiParameters
            (map_of [(''start-line-number'', ''NoNe''), (''data-min-lines'', ''3''),
                     (''max-lines'', ''20x''), (''hidden'', ''false'')])
            (interactiveParams (JString ''Run'') (JNumber 0))) ''min-lines'' = Some (JNumber 3)
   \<and> projr (getUiParameters
            (map_of [(''start-line-number'', ''NoNe''), (''data-min-lines'', ''3''),
                     (''max-lines'', ''20x''), (''hidden'', ''false'')])
            (interactiveParams (JString ''Run'') (JNumber 0))) ''max-lines'' = Some (JNumber 20)
   \<and> projr (getUiParameters
            (map_of [(''start-line-number'', ''NoNe''), (''data-min-lines'', ''3''),
                     (''max-lines'', ''20x''), (''hidden'', ''false'')])
            (interactiveParams (JString ''Run'') (JNumber 0))) ''hidden'' = Some (JBool True)
   \<and> projr (getUiParameters (map_of [(''data-start-line-number'', ''7'')])
            (interactiveParams (JString ''Run'') (JNumber 0))) ''start-line-number''
       = Some (JNumber 7)
   \<and> projr (getUiParameters (map_of [(''data-start-line-number'', ''7'')])
            (interactiveParams (JString ''Run'') (JNumber 0))) ''hidden'' = Some (JBool False)"
proof -
  let ?P = "map_of [(''start-line-number'', ''NoNe''), (''data-min-lines'', ''3''),
                    (''max-lines'', ''20x''), (''hidden'', ''false'')]"
  let ?Q = "map_of [(''data-start-line-number'', ''7'')]"
  let ?D = "interactiveParams (JString ''Run'') (JNumber 0)"
  have h: "''hasOwnProperty'' \<notin> fst ` set ?D"
    by (simp add: interactiveParams_def)
  have keys: "''class'' \<in> fst ` set ?D" "''start-line-number'' \<in> fst ` set ?D"
    "''min-lines'' \<in> fst ` set ?D" "''max-lines'' \<in> fst ` set ?D" "''hidden'' \<in> fst ` set ?D"
    by (simp_all add: interactiveParams_def)
  have "uiParameter ?P ?D ''class'' = JString ''ace_interactive_code''"
    by (simp add: uiParameter_def findAttr_def interactiveParams_def)
  then have p: "getUiParameters ?P ?D = Inr (projr (getUiParameters ?P ?D))"
    by (rule getUiParameters_projr [OF keys(1) _ h])
  have "uiParameter ?Q ?D ''class'' = JString ''ace_interactive_code''"
    by (simp add: uiParameter_def findAttr_def interactiveParams_def)
  then have q: "getUiParameters ?Q ?D = Inr (projr (getUiParameters ?Q ?D))"
    by (rule getUiParameters_projr [OF keys(1) _ h])
  have ints: "parseInt ''3'' = JNumber 3" "parseInt ''20x'' = JNumber 20" "parseInt ''7'' = JNumber 7"
    by (simp_all add: parseInt_def isWhiteSpace_def isDigit_def digitValue_def)
  have "projr (getUiParameters ?P ?D) ''start-line-number'' = Some JNull"
    using getUiParameters_coerces [OF p keys(2), of "''NoNe''"]
    by (simp add: findAttr_def noneSpellings_def)
  moreover have "projr (getUiParameters ?P ?D) ''min-lines'' = Some (JNumber 3)"
    using getUiParameters_coerces [OF p keys(3), of "''3''"]
    by (simp add: findAttr_def ints)
  moreover have "projr (getUiParameters ?P ?D) ''max-lines'' = Some (JNumber 20)"
    using getUiParameters_coerces [OF p keys(4), of "''20x''"]
    by (simp add: findAttr_def ints)
  moreover have "projr (getUiParameters ?P ?D) ''hidden'' = Some (JBool True)"
    using getUiParameters_coerces [OF p keys(5), of "''false''"]
    by (simp add: findAttr_def)
  moreover have "projr (getUiParameters ?Q ?D) ''start-line-number'' = Some (JNumber 7)"
    using getUiParameters_coerces [OF q keys(2), of "''7''"]
    by (simp add: findAttr_def noneSpellings_def ints)
  moreover have "projr (getUiParameters ?Q ?D) ''hidden'' = Some (JBool False)"
    using getUiParameters_coerces [OF q keys(5), of "[]"]
    by (simp add: findAttr_def interactiveParams_def)
  moreover have "\<not> isl (getUiParameters ?P ?D)"
    using p by (metis sum.disc(2))
  ultimately show ?thesis by simp
qed

lemma split_sep_not_Nil: "split_sep sep s \<noteq> []"
  by (induction s) (auto split: list.splits)

lemma split_sep_no_sep: "t \<in> set (split_sep sep s) \<Longrightarrow> sep \<notin> set t"
proof (induction s arbitrary: t)
  case Nil
  then show ?case by simp
next
  case (Cons c cs)
  then show ?case
    by (cases "split_sep sep cs") (auto simp add: split_sep_not_Nil split: if_splits)
qed

lemma split_sep_single: "sep \<notin> set s \<Longrightarrow> split_sep sep s = [s]"
  by (induction s) auto

text \<open>
  C7, as the code has it. When the defaults have a \<open>class\<close> entry and no key
  \<open>hasOwnProperty\<close>, and the value the loop stores under \<open>class\<close> is a string
  \<open>c\<close>, \<open>getUiParameters\<close> returns with that class, cut into tokens at each single space character and nowhere else (a class
  without a space is one token). With no token beginning with \<open>language\<close>, \<open>lang\<close> is
  what the loop stored. Otherwise \<open>lang\<close> is the last such token with its first
  occurrence of \<open>language-\<close> removed: for a last token \<open>language-x\<close> that is \<open>x\<close>.
\<close>

theorem getUiParameters_class_language:
  assumes "''class'' \<in> fst ` set dp"
    and "uiParameter pre dp ''class'' = JString c"
    and "''hasOwnProperty'' \<notin> fst ` set dp"
  shows "\<exists>ui. getUiParameters pre dp = Inr ui
           \<and> ui ''class'' = Some (JString c)
           \<and> (\<forall>t \<in> set (split_sep CHR '' '' c). CHR '' '' \<notin> set t)
           \<and> (CHR '' '' \<notin> set c \<longrightarrow> split_sep CHR '' '' c = [c])
           \<and> (filter (\<lambda>t. startsWith t ''language'') (split_sep CHR '' '' c) = [] \<longrightarrow>
                 ui ''lang'' = (if ''lang'' \<in> fst ` set dp
                                then Some (uiParameter pre dp ''lang'') else None))
           \<and> (filter (\<lambda>t. startsWith t ''language'') (split_sep CHR '' '' c) \<noteq> [] \<longrightarrow>
                 ui ''lang'' = Some (JString (replace_first ''language-'' []
                   (last (filter (\<lambda>t. startsWith t ''language'') (split_sep CHR '' '' c)))))
                 \<and> (\<forall>x. last (filter (\<lambda>t. startsWith t ''language'') (split_sep CHR '' '' c))
                           = ''language-'' @ x \<longrightarrow> ui ''lang'' = Some (JString x)))"
proof -
  from getUiParameters_InrI [OF assms] obtain own
    where ret: "getUiParameters pre dp = Inr (foldl langFromClass own (split_sep CHR '' '' c))"
      and own: "\<And>k. k \<noteq> ''__proto__'' \<Longrightarrow>
                  own k = (if k \<in> fst ` set dp then Some (uiParameter pre dp k) else None)"
    by blast
  define ui where "ui = foldl langFromClass own (split_sep CHR '' '' c)"
  let ?ms = "filter (\<lambda>t. startsWith t ''language'') (split_sep CHR '' '' c)"
  have "getUiParameters pre dp = Inr ui"
    using ret by (simp add: ui_def)
  moreover have "ui ''class'' = Some (JString c)"
    using assms by (simp add: ui_def foldl_langFromClass_other own)
  moreover have "\<forall>t \<in> set (split_sep CHR '' '' c). CHR '' '' \<notin> set t"
    using split_sep_no_sep by blast
  moreover have "CHR '' '' \<notin> set c \<longrightarrow> split_sep CHR '' '' c = [c]"
    using split_sep_single by blast
  moreover have "?ms = [] \<longrightarrow>
      ui ''lang'' = (if ''lang'' \<in> fst ` set dp then Some (uiParameter pre dp ''lang'') else None)"
    by (simp add: ui_def foldl_langFromClass_lang own)
  moreover have last: "?ms \<noteq> [] \<longrightarrow>
      ui ''lang'' = Some (JString (replace_first ''language-'' [] (last ?ms)))"
    by (simp add: ui_def foldl_langFromClass_lang)
  moreover have "?ms \<noteq> [] \<longrightarrow> (\<forall>x. last ?ms = ''language-'' @ x \<longrightarrow> ui ''lang'' = Some (JString x))"
  proof (intro impI allI)
    fix x
    assume "?ms \<noteq> []" and "last ?ms = ''language-'' @ x"
    with last have "ui ''lang'' = Some (JString (replace_first ''language-'' [] (''language-'' @ x)))"
      by simp
    also have "replace_first ''language-'' [] (''language-'' @ x) = x"
      using replace_first_prefix [of "''language-''" "[]" x] by simp
    finally show "ui ''lang'' = Some (JString x)" .
  qed
  ultimately show ?thesis by blast
qed

theorem getUiParameters_class_language_witness:
  "''class'' \<in> fst ` set (highlightParams (JNumber 0))
   \<and> ''hasOwnProperty'' \<notin> fst ` set (highlightParams (JNumber 0))
   \<and> uiParameter (map_of [(''class'', ''language-c ace-highlight-code language-java'')])
        (highlightParams (JNumber 0)) ''class''
       = JString ''language-c ace-highlight-code language-java''
   \<and> \<not> isl (getUiParameters (map_of [(''class'', ''language-c ace-highlight-code language-java'')])
            (highlightParams (JNumber 0)))
   \<and> projr (getUiParameters (map_of [(''class'', ''language-c ace-highlight-code language-java'')])
              (highlightParams (JNumber 0))) ''lang'' = Some (JString ''java'')
   \<and> projr (getUiParameters (map_of [(''class'', ''ace-highlight-code'')])
              (highlightParams (JNumber 0))) ''lang'' = Some (JString ''python3'')"
proof -
  let ?c = "''language-c ace-highlight-code language-java''"
  let ?P = "map_of [(''class'', ?c)]"
  let ?Q = "map_of [(''class'', ''ace-highlight-code'')]"
  let ?D = "highlightParams (JNumber 0)"
  have k: "''class'' \<in> fst ` set ?D" and h: "''hasOwnProperty'' \<notin> fst ` set ?D"
    by (simp_all add: highlightParams_def)
  have p: "uiParameter ?P ?D ''class'' = JString ?c"
    by (simp add: uiParameter_def findAttr_def)
  have q: "uiParameter ?Q ?D ''class'' = JString ''ace-highlight-code''"
    by (simp add: uiParameter_def findAttr_def)
  have toks: "split_sep CHR '' '' ?c = [''language-c'', ''ace-highlight-code'', ''language-java'']"
    "split_sep CHR '' '' ''ace-highlight-code'' = [''ace-highlight-code'']"
    by simp_all
  have "\<not> isl (getUiParameters ?P ?D)
        \<and> projr (getUiParameters ?P ?D) ''lang'' = Some (JString ''java'')"
    using getUiParameters_class_language [OF k p h]
    by (auto simp add: toks startsWith_def)
  moreover have "projr (getUiParameters ?Q ?D) ''lang'' = Some (JString ''python3'')"
    using getUiParameters_class_language [OF k q h]
    by (auto simp add: toks startsWith_def uiParameter_def findAttr_def highlightParams_def)
  ultimately show ?thesis using k p h by simp
qed

text \<open>
  The claim as the specification states it fails twice. For the class \<open>language-java\<close>
  the code sets \<open>lang\<close> to \<open>java\<close>, while the remainder of the token after the prefix
  \<open>language\<close> is \<open>-java\<close>. And a class whose tokens are separated by a tab is not
  split: \<open>lang\<close> keeps its default, while splitting on white space finds the token.
\<close>

theorem getUiParameters_class_language_counterexample:
  "projr (getUiParameters (map_of [(''class'', ''language-java'')])
            (highlightParams (JNumber 0))) ''lang'' = Some (JString ''java'')
   \<and> spec_postprocess
        (fst (projr (paramLoop (map_of [(''class'', ''language-java'')])
           (highlightParams (JNumber 0)) (map fst (highlightParams (JNumber 0)))
           (map_of [], ObjectPrototype))))
        ''language-java'' ''lang'' = Some (JString ''-java'')
   \<and> projr (getUiParameters (map_of [(''class'', ''x'' @ [CHR 0x09] @ ''language-java'')])
            (highlightParams (JNumber 0))) ''lang'' = Some (JString ''python3'')
   \<and> spec_postprocess
        (fst (projr (paramLoop (map_of [(''class'', ''x'' @ [CHR 0x09] @ ''language-java'')])
           (highlightParams (JNumber 0)) (map fst (highlightParams (JNumber 0)))
           (map_of [], ObjectPrototype))))
        (''x'' @ [CHR 0x09] @ ''language-java'') ''lang'' = Some (JString ''-java'')"
  by (simp add: getUiParameters_def uiParameter_def findAttr_def highlightParams_def
      hasOwnProperty_def setProperty_def getProperty_def
      langFromClass_def startsWith_def spec_postprocess_def spec_langFromClass_def
      isWhiteSpace_def)




section \<open>Properties of the presented text\<close>

lemma escapeHtml_plain: "\<forall>c \<in> set s. escapeChar c = [c] \<Longrightarrow> escapeHtml s = s"
  by (induction s) (simp_all add: escapeHtml_def)

lemma escapeChar_digit:
  fixes k :: nat
  shows "k < 10 \<Longrightarrow> escapeChar (char_of (48 + k)) = [char_of (48 + k)]"
  by (auto simp add: escapeChar_def char_of_eq_iff take_bit_eq_mod)

lemma showNat_plain: "c \<in> set (showNat n) \<Longrightarrow> escapeChar c = [c]"
proof (induction n arbitrary: c rule: showNat.induct)
  case (1 n)
  show ?case
  proof (cases "n < 10")
    case True
    with "1.prems" show ?thesis
      by (simp add: showNat.simps [of n] escapeChar_digit)
  next
    case False
    with "1.prems" have "c \<in> set (showNat (n div 10)) \<or> c = char_of (48 + n mod 10)"
      by (auto simp add: showNat.simps [of n])
    then show ?thesis
    proof
      assume "c \<in> set (showNat (n div 10))"
      with False show ?thesis by (rule "1.IH")
    next
      assume "c = char_of (48 + n mod 10)"
      then show ?thesis by (simp add: escapeChar_digit)
    qed
  qed
qed

lemma escapeHtml_showInt: "escapeHtml (showInt i) = showInt i"
proof (rule escapeHtml_plain, rule ballI)
  fix c
  assume "c \<in> set (showInt i)"
  then have "c = CHR ''-'' \<or> c \<in> set (showNat (nat (- i))) \<or> c \<in> set (showNat (nat i))"
    by (auto simp add: showInt_def split: if_splits)
  moreover have "escapeChar CHR ''-'' = ''-''"
    by (simp add: escapeChar_def)
  ultimately show "escapeChar c = [c]"
    by (auto simp add: showNat_plain)
qed

text \<open>
  C8. The text handed to \<open>displayTextOutput\<close> and the string presented carry the raw
  code exactly for \<open>error_unknown_runtime\<close>. With that language string and a sandbox
  error, the text is \<open>(Sandbox error code N)\<close>; with it and \<open>error = 0\<close>, the text is
  the combined output followed by \<open>(Run result: N)\<close>; the presented string then ends
  with that suffix unescaped, after the escaped header and output. For every other
  language string that is not empty the text is the combined output (when
  \<open>error = 0\<close>) or empty, with nothing appended, and for the empty one it is the
  combined output, or empty for a successful run in html mode.
\<close>

theorem presented_raw_code:
  "(diagnose r = ''error_unknown_runtime'' \<and> error r \<noteq> 0 \<longrightarrow>
      text (executeCode_done h maxLen r) = ''(Sandbox error code '' @ showInt (error r) @ '')''
      \<and> presented L h maxLen r
          = escapeHtml (''*** '' @ L (diagnose r) @ '' ***'' @ [CHR 0x0A])
            @ ''(Sandbox error code '' @ showInt (error r) @ '')'')
   \<and> (diagnose r = ''error_unknown_runtime'' \<and> error r = 0 \<longrightarrow>
      text (executeCode_done h maxLen r)
        = combinedOutput r maxLen @ ''(Run result: '' @ showInt (result r) @ '')''
      \<and> presented L h maxLen r
          = escapeHtml (''*** '' @ L (diagnose r) @ '' ***'' @ [CHR 0x0A] @ combinedOutput r maxLen)
            @ ''(Run result: '' @ showInt (result r) @ '')'')
   \<and> (diagnose r \<noteq> [] \<and> diagnose r \<noteq> ''error_unknown_runtime'' \<longrightarrow>
      text (executeCode_done h maxLen r) = (if error r = 0 then combinedOutput r maxLen else [])
      \<and> presented L h maxLen r
          = escapeHtml (''*** '' @ L (diagnose r) @ '' ***'' @ [CHR 0x0A]
                        @ (if error r = 0 then combinedOutput r maxLen else [])))
   \<and> (diagnose r = [] \<longrightarrow>
      text (executeCode_done h maxLen r)
        = (if \<not> h \<or> result r \<noteq> RESULT_SUCCESS then combinedOutput r maxLen else [])
      \<and> presented L h maxLen r = escapeHtml (text (executeCode_done h maxLen r)))"
proof -
  have a: "diagnose r = ''error_unknown_runtime'' \<and> error r \<noteq> 0 \<longrightarrow>
      text (executeCode_done h maxLen r) = ''(Sandbox error code '' @ showInt (error r) @ '')''
      \<and> presented L h maxLen r
          = escapeHtml (''*** '' @ L (diagnose r) @ '' ***'' @ [CHR 0x0A])
            @ ''(Sandbox error code '' @ showInt (error r) @ '')''"
    by (simp add: presented_def executeCode_done_def displayTextOutput_def Let_def
        escapeHtml_def escapeChar_def escapeHtml_showInt [unfolded escapeHtml_def])
  have b: "diagnose r = ''error_unknown_runtime'' \<and> error r = 0 \<longrightarrow>
      text (executeCode_done h maxLen r)
        = combinedOutput r maxLen @ ''(Run result: '' @ showInt (result r) @ '')''
      \<and> presented L h maxLen r
          = escapeHtml (''*** '' @ L (diagnose r) @ '' ***'' @ [CHR 0x0A] @ combinedOutput r maxLen)
            @ ''(Run result: '' @ showInt (result r) @ '')''"
    by (simp add: presented_def executeCode_done_def displayTextOutput_def Let_def
        escapeHtml_def escapeChar_def escapeHtml_showInt [unfolded escapeHtml_def])
  have c: "diagnose r \<noteq> [] \<and> diagnose r \<noteq> ''error_unknown_runtime'' \<longrightarrow>
      text (executeCode_done h maxLen r) = (if error r = 0 then combinedOutput r maxLen else [])
      \<and> presented L h maxLen r
          = escapeHtml (''*** '' @ L (diagnose r) @ '' ***'' @ [CHR 0x0A]
                        @ (if error r = 0 then combinedOutput r maxLen else []))"
    by (simp add: presented_def executeCode_done_def displayTextOutput_def Let_def)
  have d: "diagnose r = [] \<longrightarrow>
      text (executeCode_done h maxLen r)
        = (if \<not> h \<or> result r \<noteq> RESULT_SUCCESS then combinedOutput r maxLen else [])
      \<and> presented L h maxLen r = escapeHtml (text (executeCode_done h maxLen r))"
    by (simp add: presented_def executeCode_done_def displayTextOutput_def Let_def)
  from a b c d show ?thesis by (intro conjI)
qed

theorem presented_raw_code_witness:
  "diagnose \<lparr>error = 0, result = 99, cmpinfo = [], output = ''x'', stderr = []\<rparr>
     = ''error_unknown_runtime''
   \<and> presented id False 30000 \<lparr>error = 0, result = 99, cmpinfo = [], output = ''x'', stderr = []\<rparr>
       = ''*** error_unknown_runtime ***'' @ [CHR 0x0A] @ ''x(Run result: 99)''
   \<and> diagnose \<lparr>error = 7, result = 0, cmpinfo = [], output = ''x'', stderr = []\<rparr>
       = ''error_unknown_runtime''
   \<and> presented id False 30000 \<lparr>error = 7, result = 0, cmpinfo = [], output = ''x'', stderr = []\<rparr>
       = ''*** error_unknown_runtime ***'' @ [CHR 0x0A] @ ''(Sandbox error code 7)''
   \<and> diagnose \<lparr>error = 5, result = 0, cmpinfo = [], output = ''x'', stderr = []\<rparr>
       = ''error_sandbox_server_overload''
   \<and> presented id False 30000 \<lparr>error = 5, result = 0, cmpinfo = [], output = ''x'', stderr = []\<rparr>
       = ''*** error_sandbox_server_overload ***'' @ [CHR 0x0A]
   \<and> diagnose \<lparr>error = 0, result = 15, cmpinfo = [], output = ''hi'' @ [CHR 0x0A], stderr = []\<rparr>
       = []
   \<and> presented id False 30000
        \<lparr>error = 0, result = 15, cmpinfo = [], output = ''hi'' @ [CHR 0x0A], stderr = []\<rparr>
       = ''hi'' @ [CHR 0x0A]"
proof -
  have n: "showInt 99 = ''99''" "showInt 7 = ''7''"
    by code_simp+
  show ?thesis
    using
      presented_raw_code [of "\<lparr>error = 0, result = 99, cmpinfo = [], output = ''x'', stderr = []\<rparr>"
        False 30000 id]
      presented_raw_code [of "\<lparr>error = 7, result = 0, cmpinfo = [], output = ''x'', stderr = []\<rparr>"
        False 30000 id]
      presented_raw_code [of "\<lparr>error = 5, result = 0, cmpinfo = [], output = ''x'', stderr = []\<rparr>"
        False 30000 id]
      presented_raw_code
        [of "\<lparr>error = 0, result = 15, cmpinfo = [], output = ''hi'' @ [CHR 0x0A], stderr = []\<rparr>"
        False 30000 id]
    by (simp add: diagnose_eq n escapeHtml_def escapeChar_def combinedOutput_def limit_def
        RESULT_SUCCESS_def)
qed

end
